theory Spec2Isabelle
  imports Complex_Main "HOL-Library.Multiset"
begin

section \<open>JavaScript values\<close>

text \<open>
  The values the program handles: request bodies parsed from JSON, the rows the database
  driver delivers, and the objects the adapter and the handlers build.  A number is the
  rational it denotes, or NaN; the infinities do not occur in this program.  An object is
  the list of its own properties in insertion order.  A promise holds the outcome it
  settles with.
\<close>

datatype exn = TypeError string | Error string

fun message :: "exn \<Rightarrow> string" where
  "message (TypeError m) = m"
| "message (Error m) = m"

datatype number = Finite rat | NaN

datatype jsval =
    JUndefined
  | JNull
  | JBool bool
  | JNum number
  | JStr string
  | JDate nat
  | JArr "jsval list"
  | JObj "(string \<times> jsval) list"
  | JPromise "exn + jsval"

text \<open>ToBoolean: what \<open>!x\<close>, \<open>x || y\<close> and \<open>if (x)\<close> test.\<close>

fun truthy :: "jsval \<Rightarrow> bool" where
  "truthy JUndefined = False"
| "truthy JNull = False"
| "truthy (JBool b) = b"
| "truthy (JNum (Finite q)) = (q \<noteq> 0)"
| "truthy (JNum NaN) = False"
| "truthy (JStr s) = (s \<noteq> [])"
| "truthy (JDate t) = True"
| "truthy (JArr xs) = True"
| "truthy (JObj kvs) = True"
| "truthy (JPromise p) = True"

text \<open>\<open>a || b\<close>\<close>

definition js_or :: "jsval \<Rightarrow> jsval \<Rightarrow> jsval" where
  "js_or a b = (if truthy a then a else b)"

text \<open>
  Reading a property.  \<open>opt_chain v k\<close> is \<open>v?.k\<close>: the own property of an object,
  undefined for every other receiver (the names this program reads are never inherited
  ones such as \<open>length\<close>).  \<open>get_prop v k\<close> is \<open>v.k\<close>, which throws on undefined and
  null.
\<close>

fun opt_chain :: "jsval \<Rightarrow> string \<Rightarrow> jsval" where
  "opt_chain (JObj kvs) k = (case map_of kvs k of Some v \<Rightarrow> v | None \<Rightarrow> JUndefined)"
| "opt_chain v k = JUndefined"

definition cannot_read :: "string \<Rightarrow> string \<Rightarrow> exn" where
  "cannot_read what k =
     TypeError (''Cannot read properties of '' @ what @ '' (reading '' @ [CHR 0x27] @ k @ [CHR 0x27] @ '')'')"

fun get_prop :: "jsval \<Rightarrow> string \<Rightarrow> exn + jsval" where
  "get_prop JUndefined k = Inl (cannot_read ''undefined'' k)"
| "get_prop JNull k = Inl (cannot_read ''null'' k)"
| "get_prop v k = Inr (opt_chain v k)"

text \<open>\<open>{...o, k: v}\<close>: the own properties of \<open>o\<close>, then \<open>k\<close> set to \<open>v\<close>.\<close>

fun spread :: "jsval \<Rightarrow> (string \<times> jsval) list" where
  "spread (JObj kvs) = kvs"
| "spread v = []"

fun set_prop :: "(string \<times> jsval) list \<Rightarrow> string \<Rightarrow> jsval \<Rightarrow> (string \<times> jsval) list" where
  "set_prop [] k v = [(k, v)]"
| "set_prop ((k', v') # kvs) k v =
     (if k' = k then (k, v) # kvs else (k', v') # set_prop kvs k v)"

text \<open>\<open>xs[0]\<close> on an array.\<close>

fun first_elem :: "jsval list \<Rightarrow> jsval" where
  "first_elem [] = JUndefined"
| "first_elem (x # xs) = x"

subsection \<open>parseInt, parseFloat, toFixed, slice\<close>

definition is_ws :: "char \<Rightarrow> bool" where
  "is_ws c = (c \<in> set [CHR '' '', CHR 0x09, CHR 0x0A, CHR 0x0B, CHR 0x0C, CHR 0x0D])"

definition digit_of :: "nat \<Rightarrow> char \<Rightarrow> nat option" where
  "digit_of radix c =
     (let n = of_char c :: nat;
          d = (if 48 \<le> n \<and> n \<le> 57 then n - 48
               else if 97 \<le> n \<and> n \<le> 122 then n - 87
               else if 65 \<le> n \<and> n \<le> 90 then n - 55
               else radix)
      in if d < radix then Some d else None)"

fun digits_value :: "nat \<Rightarrow> nat \<Rightarrow> char list \<Rightarrow> nat option" where
  "digits_value radix acc [] = Some acc"
| "digits_value radix acc (c # cs) =
     (case digit_of radix c of
        None \<Rightarrow> Some acc
      | Some d \<Rightarrow> digits_value radix (acc * radix + d) cs)"

text \<open>
  \<open>parseInt(s)\<close> with no radix: leading white space (of the ASCII characters), a sign,
  a \<open>0x\<close> prefix for base 16, then the longest run of digits; NaN when there is no digit.
\<close>

definition parseInt_digits :: "nat \<Rightarrow> char list \<Rightarrow> int option" where
  "parseInt_digits radix s =
     (case s of
        [] \<Rightarrow> None
      | c # cs \<Rightarrow>
          (case digit_of radix c of
             None \<Rightarrow> None
           | Some d \<Rightarrow> map_option int (digits_value radix 0 s)))"

definition parseInt_unsigned :: "char list \<Rightarrow> int option" where
  "parseInt_unsigned s =
     (if take 2 s = ''0x'' \<or> take 2 s = ''0X'' then parseInt_digits 16 (drop 2 s)
      else parseInt_digits 10 s)"

definition parseInt_str :: "string \<Rightarrow> number" where
  "parseInt_str s =
     (let t = dropWhile is_ws s;
          r = (case t of
                 c # cs \<Rightarrow>
                   (if c = CHR ''-'' then map_option uminus (parseInt_unsigned cs)
                    else if c = CHR ''+'' then parseInt_unsigned cs
                    else parseInt_unsigned t)
               | [] \<Rightarrow> None)
      in case r of None \<Rightarrow> NaN | Some i \<Rightarrow> Finite (of_int i))"

text \<open>Truncation towards zero.\<close>

definition trunc :: "rat \<Rightarrow> int" where
  "trunc q = (if 0 \<le> q then \<lfloor>q\<rfloor> else - \<lfloor>- q\<rfloor>)"

text \<open>
  \<open>parseInt(v)\<close> reads ToString(v).  The text of an array starts with the text of its
  first element, empty for undefined and null, and stops being a numeral at the comma;
  the texts of booleans, null, undefined, objects, dates and promises start with no digit.
  The text of a number between 1e-6 and 1e21 in magnitude starts with its integer part;
  the number this program applies \<open>parseInt\<close> to is a row count.
\<close>

fun parseInt :: "jsval \<Rightarrow> number" where
  "parseInt (JStr s) = parseInt_str s"
| "parseInt (JNum (Finite q)) = Finite (of_int (trunc q))"
| "parseInt (JArr (JStr s # xs)) = parseInt_str s"
| "parseInt (JArr (JNum (Finite q) # xs)) = Finite (of_int (trunc q))"
| "parseInt (JArr (JArr ys # xs)) = parseInt (JArr ys)"
| "parseInt v = NaN"

text \<open>
  \<open>parseFloat\<close> is applied in this program to what the driver delivers for a numeric
  column or aggregate (the decimal text of the number, or null) and to the text
  \<open>toFixed\<close> returns.  Such a text is represented by the number it denotes.
\<close>

fun parseFloat :: "jsval \<Rightarrow> number" where
  "parseFloat (JNum n) = n"
| "parseFloat v = NaN"

text \<open>Rounding half away from zero to \<open>d\<close> decimal places (\<open>toFixed\<close>, SQL \<open>ROUND\<close>).\<close>

definition round_dp :: "nat \<Rightarrow> rat \<Rightarrow> rat" where
  "round_dp d q =
     (if 0 \<le> q then of_int \<lfloor>q * 10 ^ d + 1 / 2\<rfloor> / 10 ^ d
      else - (of_int \<lfloor>- q * 10 ^ d + 1 / 2\<rfloor> / 10 ^ d))"

fun toFixed :: "nat \<Rightarrow> number \<Rightarrow> jsval" where
  "toFixed d (Finite q) = JNum (Finite (round_dp d q))"
| "toFixed d NaN = JNum NaN"

text \<open>\<open>xs.slice(0, e)\<close>\<close>

fun slice0 :: "'a list \<Rightarrow> number \<Rightarrow> 'a list" where
  "slice0 xs NaN = []"
| "slice0 xs (Finite q) =
     (let k = trunc q
      in if k < 0 then take (nat (int (length xs) + k)) xs else take (nat k) xs)"

text \<open>
  \<open>s.charAt(0).toUpperCase() + s.slice(1)\<close> on a string, whose first character is
  mapped when it is an ASCII letter; on any other value there is no such method.
\<close>

definition upper_char :: "char \<Rightarrow> char" where
  "upper_char c =
     (let n = of_char c :: nat in if 97 \<le> n \<and> n \<le> 122 then char_of (n - 32) else c)"

fun capitalize :: "jsval \<Rightarrow> exn + jsval" where
  "capitalize (JStr []) = Inr (JStr [])"
| "capitalize (JStr (c # cs)) = Inr (JStr (upper_char c # cs))"
| "capitalize JUndefined = Inl (cannot_read ''undefined'' ''charAt'')"
| "capitalize JNull = Inl (cannot_read ''null'' ''charAt'')"
| "capitalize v = Inl (TypeError ''stat.predicted_class.charAt is not a function'')"

section \<open>The database\<close>

text \<open>
  Modelled from the spec: the table \<open>sentiment_analysis\<close> and the database server
  behind the connection pool, neither of which is among the sources.  The table has the
  columns \<open>id, text, predicted_class, confidence, positive_prob, negative_prob,
  neutral_prob, source, created_at, updated_at\<close>; \<open>id\<close>, \<open>created_at\<close> and
  \<open>updated_at\<close> are assigned by the store at insert time.  The declared column types and
  constraints are the parameter \<open>tbl_check\<close>: it answers the error message of the
  server when it rejects the values of an INSERT.  A stored value is the value bound to
  the statement (the driver binds undefined as NULL) and is delivered back unchanged.
  \<open>clock\<close> is the time of the server, which an INSERT reads; rows of equal
  \<open>created_at\<close> are listed latest insertion first, and classes of equal count in an
  order of the model's choosing, where the database is free.
\<close>

record row =
  row_id :: nat
  row_text :: jsval
  predicted_class :: jsval
  confidence :: jsval
  positive_prob :: jsval
  negative_prob :: jsval
  neutral_prob :: jsval
  source :: jsval
  created_at :: nat
  updated_at :: nat

record database =
  tbl_check :: "jsval list \<Rightarrow> string option"
  tbl :: "row list"
  next_id :: nat
  clock :: nat

definition prepareValue :: "jsval \<Rightarrow> jsval" where
  "prepareValue v = (if v = JUndefined then JNull else v)"

definition row_obj :: "row \<Rightarrow> jsval" where
  "row_obj r = JObj
     [(''id'', JNum (Finite (of_nat (row_id r)))),
      (''text'', row_text r),
      (''predicted_class'', predicted_class r),
      (''confidence'', confidence r),
      (''positive_prob'', positive_prob r),
      (''negative_prob'', negative_prob r),
      (''neutral_prob'', neutral_prob r),
      (''source'', source r),
      (''created_at'', JDate (created_at r)),
      (''updated_at'', JDate (updated_at r))]"

definition row_obj_recent :: "row \<Rightarrow> jsval" where
  "row_obj_recent r = JObj
     [(''id'', JNum (Finite (of_nat (row_id r)))),
      (''text'', row_text r),
      (''predicted_class'', predicted_class r),
      (''confidence'', confidence r),
      (''positive_prob'', positive_prob r),
      (''negative_prob'', negative_prob r),
      (''neutral_prob'', neutral_prob r),
      (''source'', source r),
      (''created_at'', JDate (created_at r))]"

text \<open>\<open>ORDER BY created_at DESC\<close>\<close>

definition newest_first :: "row list \<Rightarrow> row list" where
  "newest_first t = rev (sort_key created_at t)"

text \<open>
  The aggregates of \<open>getSentimentStats\<close>: one group for each distinct
  \<open>predicted_class\<close>, with \<open>COUNT(*)\<close>, \<open>AVG(confidence)\<close> over the numeric
  confidences of the group (NULL when there is none) and
  \<open>ROUND(COUNT(*) * 100.0 / (SELECT COUNT(*) FROM sentiment_analysis), 2)\<close>, ordered by
  \<open>count DESC\<close>.  A numeric result is the number its decimal text denotes.
\<close>

definition group_of :: "row list \<Rightarrow> jsval \<Rightarrow> row list" where
  "group_of t c = filter (\<lambda>r. predicted_class r = c) t"

fun numeric :: "jsval \<Rightarrow> rat option" where
  "numeric (JNum (Finite q)) = Some q"
| "numeric v = None"

definition sql_avg :: "jsval list \<Rightarrow> jsval" where
  "sql_avg vs =
     (let qs = List.map_filter numeric vs
      in if qs = [] then JNull else JNum (Finite (sum_list qs / of_nat (length qs))))"

definition stats_row :: "row list \<Rightarrow> jsval \<Rightarrow> jsval" where
  "stats_row t c = JObj
     [(''predicted_class'', c),
      (''count'', JNum (Finite (of_nat (length (group_of t c))))),
      (''avg_confidence'', sql_avg (map confidence (group_of t c))),
      (''percentage'',
         JNum (Finite (round_dp 2 (of_nat (length (group_of t c)) * 100 / of_nat (length t)))))]"

definition stats_groups :: "row list \<Rightarrow> jsval list" where
  "stats_groups t = rev (sort_key (\<lambda>c. length (group_of t c)) (remdups (map predicted_class t)))"

text \<open>\<open>MAX(created_at)\<close>\<close>

definition max_created :: "row list \<Rightarrow> jsval" where
  "max_created t = (case t of [] \<Rightarrow> JNull | r # rs \<Rightarrow> JDate (fold max (map created_at rs) (created_at r)))"

datatype statement =
    INSERT_RETURNING "jsval list"
  | SELECT_ALL
  | SELECT_STATS
  | SELECT_RECENT nat
  | DELETE_ALL
  | SELECT_COUNT
  | SELECT_MAX_CREATED

fun exec :: "statement \<Rightarrow> database \<Rightarrow> string + (jsval list \<times> database)" where
  "exec (INSERT_RETURNING values) db =
     (case map prepareValue values of
        [t, pc, c, pp, np, up, s] \<Rightarrow>
          (case tbl_check db [t, pc, c, pp, np, up, s] of
             Some m \<Rightarrow> Inl m
           | None \<Rightarrow>
               (let r = \<lparr>row_id = next_id db, row_text = t, predicted_class = pc,
                          confidence = c, positive_prob = pp, negative_prob = np,
                          neutral_prob = up, source = s,
                          created_at = clock db, updated_at = clock db\<rparr>
                in Inr ([row_obj r], db\<lparr>tbl := tbl db @ [r], next_id := Suc (next_id db)\<rparr>)))
      | _ \<Rightarrow> Inl ''bind message supplies the wrong number of parameters'')"
| "exec SELECT_ALL db = Inr (map row_obj (newest_first (tbl db)), db)"
| "exec SELECT_STATS db = Inr (map (stats_row (tbl db)) (stats_groups (tbl db)), db)"
| "exec (SELECT_RECENT n) db = Inr (map row_obj_recent (take n (newest_first (tbl db))), db)"
| "exec DELETE_ALL db = Inr ([], db\<lparr>tbl := []\<rparr>)"
| "exec SELECT_COUNT db = Inr ([JObj [(''total'', JNum (Finite (of_nat (length (tbl db)))))]], db)"
| "exec SELECT_MAX_CREATED db = Inr ([JObj [(''last_updated'', max_created (tbl db))]], db)"

section \<open>Effects\<close>

text \<open>
  The state the program acts on: the module variable \<open>pool\<close> (\<open>None\<close> is the null left
  when \<open>DATABASE_URL\<close> is absent), what Socket.IO has emitted, and what
  \<open>console.error\<close> has printed.  \<open>faults\<close> decides the calls to the pool in the order
  they are made: \<open>Some m\<close> makes the next call reject with the error \<open>m\<close>; an exhausted
  list means no further failure.  \<open>emit_faults\<close> does the same for \<open>io.emit\<close>.
  An asynchronous call runs to its end where it is made, so that awaiting it yields its
  outcome.
\<close>

record world =
  pool :: "database option"
  faults :: "string option list"
  emit_faults :: "string option list"
  emitted :: "(string \<times> jsval) list"
  console_errors :: "string list"

type_synonym 'a io = "world \<Rightarrow> (exn + 'a) \<times> world"

definition ret :: "'a \<Rightarrow> 'a io" where
  "ret v w = (Inr v, w)"

definition bnd :: "'a io \<Rightarrow> ('a \<Rightarrow> 'b io) \<Rightarrow> 'b io" where
  "bnd m f w = (case m w of (Inl e, w') \<Rightarrow> (Inl e, w') | (Inr v, w') \<Rightarrow> f v w')"

definition lift :: "exn + 'a \<Rightarrow> 'a io" where
  "lift r w = (r, w)"

definition try_catch :: "'a io \<Rightarrow> (exn \<Rightarrow> 'a io) \<Rightarrow> 'a io" where
  "try_catch m h w = (case m w of (Inl e, w') \<Rightarrow> h e w' | (Inr v, w') \<Rightarrow> (Inr v, w'))"

text \<open>\<open>Promise.all([a, b])\<close>: both calls are made; the first rejection is the result.\<close>

definition both :: "'a io \<Rightarrow> 'b io \<Rightarrow> ('a \<times> 'b) io" where
  "both a b w =
     (case a w of (ra, w1) \<Rightarrow>
        (case b w1 of (rb, w2) \<Rightarrow>
           (case ra of
              Inl e \<Rightarrow> (Inl e, w2)
            | Inr x \<Rightarrow> (case rb of Inl e \<Rightarrow> (Inl e, w2) | Inr y \<Rightarrow> (Inr (x, y), w2)))))"

text \<open>Calling an async function without \<open>await\<close>: the value is the promise.\<close>

definition not_awaited :: "jsval io \<Rightarrow> jsval io" where
  "not_awaited m w = (case m w of (r, w') \<Rightarrow> (Inr (JPromise r), w'))"

definition bindE :: "exn + 'a \<Rightarrow> ('a \<Rightarrow> exn + 'b) \<Rightarrow> exn + 'b" where
  "bindE r f = (case r of Inl e \<Rightarrow> Inl e | Inr v \<Rightarrow> f v)"

text \<open>\<open>xs.map(f)\<close> where \<open>f\<close> may throw.\<close>

fun js_map :: "('a \<Rightarrow> exn + 'b) \<Rightarrow> 'a list \<Rightarrow> exn + 'b list" where
  "js_map f [] = Inr []"
| "js_map f (x # xs) = bindE (f x) (\<lambda>y. bindE (js_map f xs) (\<lambda>ys. Inr (y # ys)))"

definition console_error :: "string \<Rightarrow> unit io" where
  "console_error tag w = (Inr (), w\<lparr>console_errors := console_errors w @ [tag]\<rparr>)"

definition next_fault :: "string option list \<Rightarrow> string option" where
  "next_fault fs = (case fs of [] \<Rightarrow> None | f # _ \<Rightarrow> f)"

definition pool_query :: "statement \<Rightarrow> jsval list io" where
  "pool_query q w =
     (case pool w of
        None \<Rightarrow> (Inl (cannot_read ''null'' ''query''), w)
      | Some db \<Rightarrow>
          (let w1 = w\<lparr>faults := tl (faults w)\<rparr>
           in case next_fault (faults w) of
                Some m \<Rightarrow> (Inl (Error m), w1)
              | None \<Rightarrow>
                  (case exec q db of
                     Inl m \<Rightarrow> (Inl (Error m), w1)
                   | Inr (rows, db') \<Rightarrow> (Inr rows, w1\<lparr>pool := Some db'\<rparr>))))"

definition pool_connect :: "unit io" where
  "pool_connect w =
     (case pool w of
        None \<Rightarrow> (Inl (cannot_read ''null'' ''connect''), w)
      | Some db \<Rightarrow>
          (let w1 = w\<lparr>faults := tl (faults w)\<rparr>
           in case next_fault (faults w) of
                Some m \<Rightarrow> (Inl (Error m), w1)
              | None \<Rightarrow> (Inr (), w1)))"

definition io_emit :: "string \<Rightarrow> jsval \<Rightarrow> unit io" where
  "io_emit event payload w =
     (let w1 = w\<lparr>emit_faults := tl (emit_faults w)\<rparr>
      in case next_fault (emit_faults w) of
           Some m \<Rightarrow> (Inl (Error m), w1)
         | None \<Rightarrow> (Inr (), w1\<lparr>emitted := emitted w @ [(event, payload)]\<rparr>))"

section \<open>The store adapter (postgresDB.js)\<close>

definition not_configured :: "jsval" where
  "not_configured = JObj [(''success'', JBool False), (''error'', JStr ''PostgreSQL not configured'')]"

definition failure :: "exn \<Rightarrow> jsval" where
  "failure error = JObj [(''success'', JBool False), (''error'', JStr (message error))]"

text \<open>The nested probability object built from the three columns of a row.\<close>

definition all_probabilities_of :: "jsval \<Rightarrow> exn + jsval" where
  "all_probabilities_of r =
     bindE (get_prop r ''positive_prob'') (\<lambda>pp.
     bindE (get_prop r ''negative_prob'') (\<lambda>np.
     bindE (get_prop r ''neutral_prob'') (\<lambda>up.
     Inr (JObj [(''positive'', pp), (''negative'', np), (''neutral'', up)]))))"

definition with_probabilities :: "jsval \<Rightarrow> exn + jsval" where
  "with_probabilities r =
     bindE (all_probabilities_of r) (\<lambda>ap.
     Inr (JObj (set_prop (spread r) ''all_probabilities'' ap)))"

definition insert_values :: "jsval \<Rightarrow> exn + jsval list" where
  "insert_values analysisData =
     bindE (get_prop analysisData ''text'') (\<lambda>t.
     bindE (get_prop analysisData ''predicted_class'') (\<lambda>pc.
     bindE (get_prop analysisData ''confidence'') (\<lambda>c.
     bindE (get_prop analysisData ''all_probabilities'') (\<lambda>ap.
     bindE (get_prop ap ''positive'') (\<lambda>pp.
     bindE (get_prop ap ''negative'') (\<lambda>np.
     bindE (get_prop ap ''neutral'') (\<lambda>up.
     bindE (get_prop analysisData ''source'') (\<lambda>s.
     Inr [t, pc, c, pp, np, up, js_or s (JStr ''web_analyzer'')]))))))))"

definition insertSentimentAnalysis :: "jsval \<Rightarrow> jsval io" where
  "insertSentimentAnalysis analysisData w =
     (if pool w = None then ret not_configured w
      else try_catch
             (bnd (lift (insert_values analysisData)) (\<lambda>values.
              bnd (pool_query (INSERT_RETURNING values)) (\<lambda>rows.
              bnd (lift (get_prop (first_elem rows) ''id'')) (\<lambda>new_id.
              bnd (lift (with_probabilities (first_elem rows))) (\<lambda>data.
              ret (JObj [(''success'', JBool True), (''id'', new_id), (''data'', data)]))))))
             (\<lambda>error. bnd (console_error ''Error inserting data:'') (\<lambda>_. ret (failure error)))
             w)"

definition getAllSentimentData :: "jsval list io" where
  "getAllSentimentData w =
     (if pool w = None then ret [] w
      else try_catch
             (bnd (pool_query SELECT_ALL) (\<lambda>rows. lift (js_map with_probabilities rows)))
             (\<lambda>error. bnd (console_error ''Error getting all data:'') (\<lambda>_. ret []))
             w)"

definition stats_entry :: "jsval \<Rightarrow> exn + jsval" where
  "stats_entry r =
     bindE (get_prop r ''predicted_class'') (\<lambda>pc.
     bindE (get_prop r ''count'') (\<lambda>c.
     bindE (get_prop r ''avg_confidence'') (\<lambda>a.
     bindE (get_prop r ''percentage'') (\<lambda>p.
     Inr (JObj [(''predicted_class'', pc),
                (''count'', JNum (parseInt c)),
                (''avg_confidence'', JNum (parseFloat (toFixed 4 (parseFloat a)))),
                (''percentage'', JNum (parseFloat p))])))))"

definition getSentimentStats :: "jsval list io" where
  "getSentimentStats w =
     (if pool w = None then ret [] w
      else try_catch
             (bnd (pool_query SELECT_STATS) (\<lambda>rows. lift (js_map stats_entry rows)))
             (\<lambda>error. bnd (console_error ''Error getting stats:'') (\<lambda>_. ret []))
             w)"

text \<open>
  \<open>colors[sentiment] || '#6b7280'\<close>, for the labels a stored row can carry: a string
  other than the three keys, and any value that is not a string, finds no colour.
\<close>

definition getSentimentColor :: "jsval \<Rightarrow> jsval" where
  "getSentimentColor sentiment =
     js_or (case sentiment of
              JStr s \<Rightarrow> opt_chain (JObj [(''positive'', JStr ''#22c55e''),
                                         (''negative'', JStr ''#ef4444''),
                                         (''neutral'', JStr ''#6b7280'')]) s
            | _ \<Rightarrow> JUndefined)
           (JStr ''#6b7280'')"

definition chart_entry :: "jsval \<Rightarrow> exn + jsval" where
  "chart_entry stat =
     bindE (get_prop stat ''predicted_class'') (\<lambda>pc.
     bindE (capitalize pc) (\<lambda>name.
     bindE (get_prop stat ''percentage'') (\<lambda>p.
     bindE (get_prop stat ''count'') (\<lambda>c.
     bindE (get_prop stat ''avg_confidence'') (\<lambda>a.
     Inr (JObj [(''name'', name),
                (''value'', p),
                (''count'', c),
                (''avgConfidence'', a),
                (''color'', getSentimentColor pc)]))))))"

definition getChartData :: "jsval list io" where
  "getChartData =
     try_catch
       (bnd getSentimentStats (\<lambda>stats. lift (js_map chart_entry stats)))
       (\<lambda>error. bnd (console_error ''Error getting chart data:'') (\<lambda>_. ret []))"

text \<open>\<open>getRecentEntries(limit = 10)\<close>; the program calls it as \<open>getRecentEntries(5)\<close>.\<close>

definition getRecentEntries :: "nat option \<Rightarrow> jsval list io" where
  "getRecentEntries limit w =
     (if pool w = None then ret [] w
      else try_catch
             (bnd (pool_query (SELECT_RECENT (case limit of None \<Rightarrow> 10 | Some n \<Rightarrow> n))) (\<lambda>rows.
              lift (js_map with_probabilities rows)))
             (\<lambda>error. bnd (console_error ''Error getting recent entries:'') (\<lambda>_. ret []))
             w)"

definition no_stats :: "jsval" where
  "no_stats = JObj [(''total_entries'', JNum (Finite 0)), (''last_updated'', JNull)]"

definition getDatabaseStats :: "jsval io" where
  "getDatabaseStats w =
     (if pool w = None then ret no_stats w
      else try_catch
             (bnd (both (pool_query SELECT_COUNT) (pool_query SELECT_MAX_CREATED))
                (\<lambda>(countResult, updateResult).
              bnd (lift (get_prop (first_elem countResult) ''total'')) (\<lambda>total_text.
              bnd (lift (get_prop (first_elem updateResult) ''last_updated'')) (\<lambda>last_updated.
              ret (JObj [(''total_entries'', JNum (parseInt total_text)),
                         (''last_updated'', last_updated)])))))
             (\<lambda>error. bnd (console_error ''Error getting database stats:'') (\<lambda>_. ret no_stats))
             w)"

definition database_info :: "jsval \<Rightarrow> jsval \<Rightarrow> string \<Rightarrow> string \<Rightarrow> jsval" where
  "database_info total_entries last_updated database_type connection_status = JObj
     [(''total_entries'', total_entries),
      (''last_updated'', last_updated),
      (''database_type'', JStr database_type),
      (''connection_status'', JStr connection_status)]"

definition getDatabaseInfo :: "jsval io" where
  "getDatabaseInfo w =
     (if pool w = None
      then ret (database_info (JNum (Finite 0)) JNull ''PostgreSQL (Not Configured)'' ''disconnected'') w
      else try_catch
             (bnd getDatabaseStats (\<lambda>stats.
              bnd (lift (get_prop stats ''total_entries'')) (\<lambda>total_entries.
              bnd (lift (get_prop stats ''last_updated'')) (\<lambda>last_updated.
              ret (database_info total_entries last_updated ''PostgreSQL'' ''connected'')))))
             (\<lambda>error. bnd (console_error ''Error getting database info:'') (\<lambda>_.
                ret (database_info (JNum (Finite 0)) JNull ''PostgreSQL'' ''error'')))
             w)"

definition clearAllData :: "jsval io" where
  "clearAllData w =
     (if pool w = None then ret not_configured w
      else try_catch
             (bnd (pool_query DELETE_ALL) (\<lambda>_.
              ret (JObj [(''success'', JBool True),
                         (''message'', JStr ''All data cleared successfully'')])))
             (\<lambda>error. bnd (console_error ''Error clearing data:'') (\<lambda>_. ret (failure error)))
             w)"

definition testConnection :: "bool io" where
  "testConnection w =
     (if pool w = None then ret False w
      else try_catch
             (bnd pool_connect (\<lambda>_. ret True))
             (\<lambda>error. bnd (console_error ''PostgreSQL connection failed:'') (\<lambda>_. ret False))
             w)"

definition fallback :: "string \<Rightarrow> jsval" where
  "fallback status_tag = JObj
     [(''total_entries'', JNum (Finite 0)), (''last_updated'', JNull), (''status'', JStr status_tag)]"

definition initializeDatabase :: "jsval io" where
  "initializeDatabase w =
     (if pool w = None then ret (fallback ''fallback_mode'') w
      else bnd testConnection (\<lambda>isConnected.
             if \<not> isConnected then ret (fallback ''connection_failed'')
             else try_catch getDatabaseStats
                    (\<lambda>error. bnd (console_error ''Error initializing database:'') (\<lambda>_.
                       ret (fallback ''error''))))
           w)"

section \<open>The HTTP API and the broadcast\<close>

record response =
  status :: nat
  body :: jsval

text \<open>\<open>res.json(b)\<close> answers 200; \<open>res.status(n).json(b)\<close> answers \<open>n\<close>.\<close>

definition res_json :: "jsval \<Rightarrow> response io" where
  "res_json b = ret \<lparr>status = 200, body = b\<rparr>"

definition res_status_json :: "nat \<Rightarrow> jsval \<Rightarrow> response io" where
  "res_status_json n b = ret \<lparr>status = n, body = b\<rparr>"

definition error_body :: "jsval \<Rightarrow> jsval" where
  "error_body e = JObj [(''success'', JBool False), (''error'', e)]"

subsection \<open>broadcastDataUpdate\<close>

definition update_data :: "jsval list \<Rightarrow> jsval list \<Rightarrow> jsval list \<Rightarrow> jsval \<Rightarrow> (string \<times> jsval) list" where
  "update_data stats chartData recentEntries dbInfo =
     [(''statistics'', JArr stats),
      (''chart_data'', JArr chartData),
      (''recent_entries'', JArr recentEntries),
      (''database_info'', JObj
         [(''total_entries'', js_or (opt_chain dbInfo ''total_entries'') (JNum (Finite 0))),
          (''last_updated'', opt_chain dbInfo ''last_updated''),
          (''database_type'', js_or (opt_chain dbInfo ''database_type'') (JStr ''PostgreSQL''))])]"

definition broadcastDataUpdate :: "unit io" where
  "broadcastDataUpdate =
     try_catch
       (bnd (both getSentimentStats (both getChartData (both (getRecentEntries (Some 5)) getDatabaseInfo)))
          (\<lambda>(stats, chartData, recentEntries, dbInfo).
        io_emit ''data-updated'' (JObj (update_data stats chartData recentEntries dbInfo))))
       (\<lambda>error. console_error ''Error broadcasting update:'')"

subsection \<open>POST /api/save-sentiment\<close>

definition missing_fields :: "jsval" where
  "missing_fields = error_body
     (JStr ''Missing required fields: text, predicted_class, confidence, all_probabilities'')"

definition analysis_data :: "jsval \<Rightarrow> jsval \<Rightarrow> jsval \<Rightarrow> jsval \<Rightarrow> jsval" where
  "analysis_data text_field predicted confidence_field probabilities = JObj
     [(''text'', text_field),
      (''predicted_class'', predicted),
      (''confidence'', confidence_field),
      (''all_probabilities'', probabilities),
      (''source'', JStr ''web_analyzer'')]"

text \<open>The handler of the Socket.IO server.\<close>

definition post_save_sentiment :: "jsval \<Rightarrow> response io" where
  "post_save_sentiment req_body =
     try_catch
       (bnd (lift (get_prop req_body ''text'')) (\<lambda>text_field.
        bnd (lift (get_prop req_body ''predicted_class'')) (\<lambda>predicted.
        bnd (lift (get_prop req_body ''confidence'')) (\<lambda>confidence_field.
        bnd (lift (get_prop req_body ''all_probabilities'')) (\<lambda>probabilities.
        if \<not> truthy text_field \<or> \<not> truthy predicted \<or> \<not> truthy confidence_field
           \<or> \<not> truthy probabilities
        then res_status_json 400 missing_fields
        else
          bnd (not_awaited (insertSentimentAnalysis
                 (analysis_data text_field predicted confidence_field probabilities))) (\<lambda>result.
          bnd (lift (get_prop result ''success'')) (\<lambda>success.
          if truthy success
          then
            bnd (both getSentimentStats getChartData) (\<lambda>(stats, chartData).
            bnd broadcastDataUpdate (\<lambda>_.
            bnd (lift (get_prop result ''data'')) (\<lambda>data.
            res_json (JObj [(''success'', JBool True),
                            (''message'', JStr ''Sentiment analysis saved successfully''),
                            (''data'', data),
                            (''current_stats'', JArr stats),
                            (''chart_data'', JArr chartData)]))))
          else
            bnd (lift (get_prop result ''error'')) (\<lambda>e.
            res_status_json 500 (error_body e)))))))))
       (\<lambda>error. bnd (console_error ''Error saving sentiment:'') (\<lambda>_.
          res_status_json 500 (error_body (JStr ''Internal server error''))))"

text \<open>The handler of \<open>server.js\<close>, which has no broadcast.\<close>

definition post_save_sentiment_server_js :: "jsval \<Rightarrow> response io" where
  "post_save_sentiment_server_js req_body =
     try_catch
       (bnd (lift (get_prop req_body ''text'')) (\<lambda>text_field.
        bnd (lift (get_prop req_body ''predicted_class'')) (\<lambda>predicted.
        bnd (lift (get_prop req_body ''confidence'')) (\<lambda>confidence_field.
        bnd (lift (get_prop req_body ''all_probabilities'')) (\<lambda>probabilities.
        if \<not> truthy text_field \<or> \<not> truthy predicted \<or> \<not> truthy confidence_field
           \<or> \<not> truthy probabilities
        then res_status_json 400 missing_fields
        else
          bnd (not_awaited (insertSentimentAnalysis
                 (analysis_data text_field predicted confidence_field probabilities))) (\<lambda>result.
          bnd (lift (get_prop result ''success'')) (\<lambda>success.
          if truthy success
          then
            bnd (both getSentimentStats getChartData) (\<lambda>(stats, chartData).
            bnd (lift (get_prop result ''data'')) (\<lambda>data.
            res_json (JObj [(''success'', JBool True),
                            (''message'', JStr ''Sentiment analysis saved successfully''),
                            (''data'', data),
                            (''current_stats'', JArr stats),
                            (''chart_data'', JArr chartData)])))
          else
            bnd (lift (get_prop result ''error'')) (\<lambda>e.
            res_status_json 500 (error_body e)))))))))
       (\<lambda>error. bnd (console_error ''Error saving sentiment:'') (\<lambda>_.
          res_status_json 500 (error_body (JStr ''Internal server error''))))"

subsection \<open>GET /api/sentiment-data\<close>

text \<open>\<open>limit\<close> is \<open>req.query.limit\<close>, undefined when the parameter is absent.\<close>

definition get_sentiment_data :: "jsval \<Rightarrow> response io" where
  "get_sentiment_data limit =
     try_catch
       (bnd getAllSentimentData (\<lambda>allData.
        res_json (JObj [(''success'', JBool True),
                        (''data'', JArr (if truthy limit then slice0 allData (parseInt limit)
                                         else allData)),
                        (''total'', JNum (Finite (of_nat (length allData))))])))
       (\<lambda>error. bnd (console_error ''Error getting sentiment data:'') (\<lambda>_.
          res_status_json 500 (error_body (JStr ''Failed to retrieve sentiment data''))))"

subsection \<open>DELETE /api/clear-data\<close>

definition delete_clear_data :: "response io" where
  "delete_clear_data =
     try_catch
       (bnd clearAllData (\<lambda>result.
        bnd (lift (get_prop result ''success'')) (\<lambda>success.
        if truthy success
        then
          bnd broadcastDataUpdate (\<lambda>_.
          res_json (JObj [(''success'', JBool True),
                          (''message'', JStr ''All sentiment data cleared successfully'')]))
        else
          bnd (lift (get_prop result ''error'')) (\<lambda>e.
          res_status_json 500 (error_body (js_or e (JStr ''Failed to clear data'')))))))
       (\<lambda>error. bnd (console_error ''Error clearing data:'') (\<lambda>_.
          res_status_json 500 (error_body (JStr ''Failed to clear data''))))"

section \<open>Sample data\<close>

text \<open>
  Two tables: one that declares no constraint, and one whose six data columns are all
  \<open>NOT NULL\<close>.
\<close>

definition no_constraints :: "jsval list \<Rightarrow> string option" where
  "no_constraints vs = None"

definition all_not_null :: "jsval list \<Rightarrow> string option" where
  "all_not_null vs =
     (if JNull \<in> set (take 6 vs) then Some ''null value violates not-null constraint'' else None)"

definition empty_db :: "(jsval list \<Rightarrow> string option) \<Rightarrow> database" where
  "empty_db check = \<lparr>tbl_check = check, tbl = [], next_id = 1, clock = 0\<rparr>"

definition connected_to :: "database \<Rightarrow> world" where
  "connected_to db =
     \<lparr>pool = Some db, faults = [], emit_faults = [], emitted = [], console_errors = []\<rparr>"

definition degraded :: "world" where
  "degraded = \<lparr>pool = None, faults = [], emit_faults = [], emitted = [], console_errors = []\<rparr>"

definition sample_probabilities :: "jsval" where
  "sample_probabilities = JObj
     [(''positive'', JNum (Finite (95 / 100))),
      (''negative'', JNum (Finite (3 / 100))),
      (''neutral'', JNum (Finite (2 / 100)))]"

definition sample_body :: "jsval" where
  "sample_body = JObj
     [(''text'', JStr ''great product''),
      (''predicted_class'', JStr ''positive''),
      (''confidence'', JNum (Finite (95 / 100))),
      (''all_probabilities'', sample_probabilities)]"

definition zero_confidence_body :: "jsval" where
  "zero_confidence_body = JObj
     [(''text'', JStr ''meh''),
      (''predicted_class'', JStr ''neutral''),
      (''confidence'', JNum (Finite 0)),
      (''all_probabilities'', sample_probabilities)]"

definition empty_text_body :: "jsval" where
  "empty_text_body = JObj
     [(''text'', JStr []),
      (''predicted_class'', JStr ''neutral''),
      (''confidence'', JNum (Finite (1 / 2))),
      (''all_probabilities'', sample_probabilities)]"

definition no_text_record :: "jsval" where
  "no_text_record = JObj
     [(''predicted_class'', JStr ''positive''),
      (''confidence'', JNum (Finite (95 / 100))),
      (''all_probabilities'', sample_probabilities)]"

definition no_probabilities_record :: "jsval" where
  "no_probabilities_record = JObj
     [(''text'', JStr ''great product''),
      (''predicted_class'', JStr ''positive''),
      (''confidence'', JNum (Finite (95 / 100)))]"


definition broken_socket :: "world" where
  "broken_socket = (connected_to (empty_db all_not_null))\<lparr>emit_faults := [Some ''transport closed'']\<rparr>"

definition sample_row :: "nat \<Rightarrow> string \<Rightarrow> rat \<Rightarrow> nat \<Rightarrow> row" where
  "sample_row i label c t =
     \<lparr>row_id = i, row_text = JStr ''some text'', predicted_class = JStr label,
      confidence = JNum (Finite c), positive_prob = JNum (Finite (1 / 2)),
      negative_prob = JNum (Finite (1 / 4)), neutral_prob = JNum (Finite (1 / 4)),
      source = JStr ''web_analyzer'', created_at = t, updated_at = t\<rparr>"

definition two_rows_db :: "database" where
  "two_rows_db =
     \<lparr>tbl_check = all_not_null,
      tbl = [sample_row 1 ''positive'' (9 / 10) 10, sample_row 2 ''negative'' (7 / 10) 20],
      next_id = 3, clock = 30\<rparr>"

definition two_rows :: "world" where
  "two_rows = connected_to two_rows_db"

definition five_rows_db :: "database" where
  "five_rows_db =
     \<lparr>tbl_check = all_not_null,
      tbl = [sample_row 1 ''positive'' (9 / 10) 10, sample_row 2 ''negative'' (7 / 10) 50,
             sample_row 3 ''positive'' (8 / 10) 30, sample_row 4 ''neutral'' (6 / 10) 20,
             sample_row 5 ''positive'' (1 / 3) 40],
      next_id = 6, clock = 60\<rparr>"

definition five_rows :: "world" where
  "five_rows = connected_to five_rows_db"



definition strict_then_down :: "world" where
  "strict_then_down =
     (connected_to (empty_db all_not_null))\<lparr>faults := [None, Some ''connection lost'']\<rparr>"

definition flaky_store :: "world" where
  "flaky_store =
     two_rows\<lparr>faults := [None, Some ''terminated'', Some ''terminated'', Some ''terminated'',
                        Some ''terminated'', Some ''terminated'']\<rparr>"

section \<open>What the specification speaks of\<close>

text \<open>
  A SentimentRecord as the adapter hands it to its caller: the columns of the row, and the
  three probability columns once more as the nested object \<open>all_probabilities\<close>.
\<close>

definition stored_record :: "row \<Rightarrow> jsval" where
  "stored_record r = JObj
     [(''id'', JNum (Finite (of_nat (row_id r)))),
      (''text'', row_text r),
      (''predicted_class'', predicted_class r),
      (''confidence'', confidence r),
      (''positive_prob'', positive_prob r),
      (''negative_prob'', negative_prob r),
      (''neutral_prob'', neutral_prob r),
      (''source'', source r),
      (''created_at'', JDate (created_at r)),
      (''updated_at'', JDate (updated_at r)),
      (''all_probabilities'', JObj [(''positive'', positive_prob r),
                                    (''negative'', negative_prob r),
                                    (''neutral'', neutral_prob r)])]"





text \<open>The decimal numeral of a natural number, as a query string carries it.\<close>

definition digit_char :: "nat \<Rightarrow> char" where
  "digit_char d = char_of (48 + d)"

fun decimal :: "nat \<Rightarrow> string" where
  "decimal n = (if n < 10 then [digit_char n] else decimal (n div 10) @ [digit_char (n mod 10)])"

declare decimal.simps [simp del]

section \<open>Properties\<close>

subsection \<open>Auxiliary facts\<close>

lemmas io_defs = ret_def bnd_def lift_def try_catch_def both_def not_awaited_def bindE_def
  console_error_def res_json_def res_status_json_def

lemmas sample_defs = sample_body_def sample_probabilities_def connected_to_def empty_db_def
  no_constraints_def all_not_null_def degraded_def

lemmas eval_defs = post_save_sentiment_def post_save_sentiment_server_js_def
  insertSentimentAnalysis_def insert_values_def analysis_data_def pool_query_def
  next_fault_def prepareValue_def js_or_def row_obj_def with_probabilities_def
  all_probabilities_of_def error_body_def missing_fields_def failure_def not_configured_def Let_def

lemma get_prop_total: "v \<noteq> JUndefined \<Longrightarrow> v \<noteq> JNull \<Longrightarrow> get_prop v k = Inr (opt_chain v k)"
  by (cases v) simp_all

lemma with_probabilities_row: "with_probabilities (row_obj r) = Inr (stored_record r)"
  by (simp add: with_probabilities_def all_probabilities_of_def row_obj_def stored_record_def bindE_def)

lemma row_obj_id: "get_prop (row_obj r) ''id'' = Inr (JNum (Finite (of_nat (row_id r))))"
  by (simp add: row_obj_def)


lemma insert_values_absent:
  assumes "opt_chain a ''all_probabilities'' = JUndefined \<or> opt_chain a ''all_probabilities'' = JNull"
  shows "\<exists>m. insert_values a = Inl (TypeError m)"
proof (cases "a = JUndefined \<or> a = JNull")
  case True
  then show ?thesis by (auto simp: insert_values_def bindE_def cannot_read_def)
next
  case False
  then have "\<And>k. get_prop a k = Inr (opt_chain a k)" by (simp add: get_prop_total)
  with assms show ?thesis by (auto simp: insert_values_def bindE_def cannot_read_def)
qed

lemma insert_values_seven:
  "insert_values a = Inr vs \<Longrightarrow> \<exists>t pc c pp np up s. vs = [t, pc, c, pp, np, up, s]"
  by (auto simp: insert_values_def bindE_def split: sum.splits)

lemma insert_accepted:
  assumes "pool w = Some db" "next_fault (faults w) = None"
    and "insert_values a = Inr [t, pc, c, pp, np, up, s]"
    and "tbl_check db (map prepareValue [t, pc, c, pp, np, up, s]) = None"
    and "r = \<lparr>row_id = next_id db, row_text = prepareValue t, predicted_class = prepareValue pc,
              confidence = prepareValue c, positive_prob = prepareValue pp,
              negative_prob = prepareValue np, neutral_prob = prepareValue up,
              source = prepareValue s, created_at = clock db, updated_at = clock db\<rparr>"
  shows "insertSentimentAnalysis a w =
     (Inr (JObj [(''success'', JBool True), (''id'', JNum (Finite (of_nat (next_id db)))),
                 (''data'', stored_record r)]),
      w\<lparr>faults := tl (faults w),
        pool := Some (db\<lparr>tbl := tbl db @ [r], next_id := Suc (next_id db)\<rparr>)\<rparr>)"
  using assms
  by (simp add: insertSentimentAnalysis_def pool_query_def io_defs with_probabilities_row
      Let_def row_obj_id)

lemma insert_not_sent:
  assumes "pool w = Some db" "insert_values a = Inl e"
  shows "insertSentimentAnalysis a w =
     (Inr (JObj [(''success'', JBool False), (''error'', JStr (message e))]),
      w\<lparr>console_errors := console_errors w @ [''Error inserting data:'']\<rparr>)"
  using assms by (simp add: insertSentimentAnalysis_def io_defs failure_def)

lemma insert_rejected:
  assumes "pool w = Some db" "next_fault (faults w) = None"
    and "insert_values a = Inr vs" "tbl_check db (map prepareValue vs) = Some m"
  shows "insertSentimentAnalysis a w =
     (Inr (JObj [(''success'', JBool False), (''error'', JStr m)]),
      w\<lparr>faults := tl (faults w),
        console_errors := console_errors w @ [''Error inserting data:'']\<rparr>)"
proof -
  from insert_values_seven[OF assms(3)] obtain t pc c pp np up s
    where vs: "vs = [t, pc, c, pp, np, up, s]" by blast
  with assms show ?thesis
    by (simp add: insertSentimentAnalysis_def pool_query_def io_defs failure_def Let_def)
qed

lemma insert_fault:
  assumes "pool w = Some db" "next_fault (faults w) = Some m" "insert_values a = Inr vs"
  shows "insertSentimentAnalysis a w =
     (Inr (JObj [(''success'', JBool False), (''error'', JStr m)]),
      w\<lparr>faults := tl (faults w),
        console_errors := console_errors w @ [''Error inserting data:'']\<rparr>)"
  using assms
  by (simp add: insertSentimentAnalysis_def pool_query_def io_defs failure_def Let_def)

lemma insert_outcome:
  "\<exists>r w'. insertSentimentAnalysis a w = (Inr r, w') \<and> emitted w' = emitted w"
  by (auto simp add: insertSentimentAnalysis_def pool_query_def io_defs Let_def
      split: prod.splits sum.splits option.splits)

lemma save_sentiment_not_200:
  "\<exists>r w'. post_save_sentiment b w = (Inr r, w') \<and> status r \<noteq> 200 \<and> emitted w' = emitted w"
proof (cases "b = JUndefined \<or> b = JNull")
  case True
  then show ?thesis by (auto simp: post_save_sentiment_def io_defs)
next
  case False
  then have gp: "\<And>k. get_prop b k = Inr (opt_chain b k)" by (simp add: get_prop_total)
  obtain r w' where r: "insertSentimentAnalysis (analysis_data (opt_chain b ''text'')
      (opt_chain b ''predicted_class'') (opt_chain b ''confidence'')
      (opt_chain b ''all_probabilities'')) w = (Inr r, w')" "emitted w' = emitted w"
    using insert_outcome by blast
  then show ?thesis
    by (simp add: post_save_sentiment_def io_defs gp)
qed

lemma save_sentiment_server_js_not_200:
  "\<exists>r w'. post_save_sentiment_server_js b w = (Inr r, w') \<and> status r \<noteq> 200"
proof (cases "b = JUndefined \<or> b = JNull")
  case True
  then show ?thesis by (auto simp: post_save_sentiment_server_js_def io_defs)
next
  case False
  then have gp: "\<And>k. get_prop b k = Inr (opt_chain b k)" by (simp add: get_prop_total)
  obtain r w' where r: "insertSentimentAnalysis (analysis_data (opt_chain b ''text'')
      (opt_chain b ''predicted_class'') (opt_chain b ''confidence'')
      (opt_chain b ''all_probabilities'')) w = (Inr r, w')"
    using insert_outcome by blast
  then show ?thesis
    by (simp add: post_save_sentiment_server_js_def io_defs gp)
qed

lemma pool_query_frame:
  "pool_query q w = (r, w') \<Longrightarrow>
     emitted w' = emitted w \<and> emit_faults w' = emit_faults w \<and> console_errors w' = console_errors w"
  by (auto simp: pool_query_def Let_def split: option.splits sum.splits prod.splits)

lemma getSentimentStats_returns:
  "\<exists>r w'. getSentimentStats w = (Inr r, w') \<and> emitted w' = emitted w \<and> emit_faults w' = emit_faults w"
proof (cases "pool_query SELECT_STATS w")
  case (Pair r w')
  with pool_query_frame[OF Pair] show ?thesis
    by (cases r) (auto simp: getSentimentStats_def io_defs split: sum.splits)
qed

lemma getChartData_returns:
  "\<exists>r w'. getChartData w = (Inr r, w') \<and> emitted w' = emitted w \<and> emit_faults w' = emit_faults w"
proof -
  obtain r w' where "getSentimentStats w = (Inr r, w')" "emitted w' = emitted w" "emit_faults w' = emit_faults w"
    using getSentimentStats_returns by blast
  then show ?thesis
    by (auto simp: getChartData_def io_defs split: sum.splits)
qed

lemma getRecentEntries_returns:
  "\<exists>r w'. getRecentEntries n w = (Inr r, w') \<and> emitted w' = emitted w \<and> emit_faults w' = emit_faults w"
proof (cases "pool_query (SELECT_RECENT (case n of None \<Rightarrow> 10 | Some k \<Rightarrow> k)) w")
  case (Pair r w')
  with pool_query_frame[OF Pair] show ?thesis
    by (cases r) (auto simp: getRecentEntries_def io_defs split: sum.splits)
qed

lemma getDatabaseStats_returns:
  "\<exists>r w'. getDatabaseStats w = (Inr r, w') \<and> emitted w' = emitted w \<and> emit_faults w' = emit_faults w"
proof (cases "pool_query SELECT_COUNT w")
  case (Pair r1 w1)
  note q1 = Pair
  show ?thesis
  proof (cases "pool_query SELECT_MAX_CREATED w1")
    case (Pair r2 w2)
    with q1 pool_query_frame[OF q1] pool_query_frame[OF Pair] show ?thesis
      by (cases r1; cases r2) (auto simp: getDatabaseStats_def io_defs split: sum.splits)
  qed
qed

lemma getDatabaseInfo_returns:
  "\<exists>r w'. getDatabaseInfo w = (Inr r, w') \<and> emitted w' = emitted w \<and> emit_faults w' = emit_faults w"
proof -
  obtain r w' where "getDatabaseStats w = (Inr r, w')" "emitted w' = emitted w" "emit_faults w' = emit_faults w"
    using getDatabaseStats_returns by blast
  then show ?thesis
    by (auto simp: getDatabaseInfo_def io_defs split: sum.splits)
qed

lemma broadcast_outcome:
  "\<exists>w'. broadcastDataUpdate w = (Inr (), w')
     \<and> ((\<exists>p. next_fault (emit_faults w) = None \<and> emitted w' = emitted w @ [(''data-updated'', p)])
        \<or> (next_fault (emit_faults w) \<noteq> None \<and> emitted w' = emitted w
            \<and> last (console_errors w') = ''Error broadcasting update:''))"
proof -
  obtain r1 w1 where 1: "getSentimentStats w = (Inr r1, w1)" "emitted w1 = emitted w" "emit_faults w1 = emit_faults w"
    using getSentimentStats_returns by blast
  obtain r2 w2 where 2: "getChartData w1 = (Inr r2, w2)" "emitted w2 = emitted w1" "emit_faults w2 = emit_faults w1"
    using getChartData_returns by blast
  obtain r3 w3 where 3: "getRecentEntries (Some 5) w2 = (Inr r3, w3)" "emitted w3 = emitted w2" "emit_faults w3 = emit_faults w2"
    using getRecentEntries_returns by blast
  obtain r4 w4 where 4: "getDatabaseInfo w3 = (Inr r4, w4)" "emitted w4 = emitted w3" "emit_faults w4 = emit_faults w3"
    using getDatabaseInfo_returns by blast
  show ?thesis
    using 1 2 3 4
    by (cases "next_fault (emit_faults w)")
       (simp_all add: broadcastDataUpdate_def io_defs io_emit_def Let_def)
qed

lemma clearAllData_returns:
  "\<exists>kvs w'. clearAllData w = (Inr (JObj kvs), w')"
  by (auto simp: clearAllData_def io_defs not_configured_def failure_def split: sum.splits prod.splits)


lemma no_fault_update: "faults w = [] \<Longrightarrow> w\<lparr>faults := []\<rparr> = w"
  by (cases w) simp


lemma js_map_total:
  assumes "\<And>x. f (g x) = Inr (h x)"
  shows "js_map f (map g xs) = Inr (map h xs)"
  by (induction xs) (simp_all add: assms bindE_def)

lemma trunc_of_nat: "trunc (of_nat n) = int n"
  by (simp add: trunc_def)

lemma getAllSentimentData_ok:
  assumes "pool w = Some db" "next_fault (faults w) = None"
  shows "getAllSentimentData w =
     (Inr (map stored_record (newest_first (tbl db))), w\<lparr>faults := tl (faults w), pool := Some db\<rparr>)"
  using assms
  by (simp add: getAllSentimentData_def pool_query_def io_defs Let_def
      js_map_total[of with_probabilities row_obj stored_record, OF with_probabilities_row])

lemma newest_first_sorted:
  "sorted_wrt (\<lambda>a b. created_at b \<le> created_at a) (newest_first t)"
proof -
  have "sorted (map created_at (sort_key created_at t))" by simp
  then have "sorted_wrt (\<lambda>a b. created_at a \<le> created_at b) (sort_key created_at t)"
    by (simp add: sorted_map)
  then show ?thesis
    unfolding newest_first_def by (simp add: sorted_wrt_rev)
qed

lemma newest_first_mset: "mset (newest_first t) = mset t"
  by (simp add: newest_first_def)

lemma sorted_wrt_take_drop:
  assumes "sorted_wrt P xs" "x \<in> set (take n xs)" "y \<in> set (drop n xs)"
  shows "P x y"
proof -
  have "sorted_wrt P (take n xs @ drop n xs)" using assms(1) by simp
  then show ?thesis using assms(2,3) unfolding sorted_wrt_append by blast
qed

lemma parseInt_two: "parseInt_str ''2'' = Finite 2"
  by (simp add: parseInt_str_def is_ws_def parseInt_unsigned_def parseInt_digits_def digit_of_def)

lemma digit_of_digit_char: "d < 10 \<Longrightarrow> digit_of 10 (digit_char d) = Some d"
  by (simp add: digit_of_def digit_char_def Let_def)

lemma digit_char_plain:
  "d < 10 \<Longrightarrow> \<not> is_ws (digit_char d) \<and> digit_char d \<noteq> CHR ''-'' \<and> digit_char d \<noteq> CHR ''+''
     \<and> digit_char d \<noteq> CHR ''x'' \<and> digit_char d \<noteq> CHR ''X''"
proof -
  assume "d < 10"
  then have v: "of_char (digit_char d) = 48 + d"
    by (simp add: digit_char_def)
  have "digit_char d \<noteq> c" if "(of_char c :: nat) < 48 \<or> 57 < (of_char c :: nat)" for c
    using that v \<open>d < 10\<close> by auto
  then show ?thesis
    by (simp add: is_ws_def)
qed

lemma digits_value_append:
  "\<forall>c \<in> set xs. digit_of r c \<noteq> None \<Longrightarrow>
   digits_value r acc (xs @ ys) =
     (case digits_value r acc xs of None \<Rightarrow> None | Some a \<Rightarrow> digits_value r a ys)"
  by (induction xs arbitrary: acc) auto

lemma decimal_digits: "c \<in> set (decimal n) \<Longrightarrow> \<exists>d < 10. c = digit_char d"
proof (induction n rule: decimal.induct)
  case (1 n)
  show ?case
  proof (cases "n < 10")
    case True
    with "1.prems" show ?thesis by (auto simp: decimal.simps[of n])
  next
    case False
    with "1.prems" have "c \<in> set (decimal (n div 10)) \<or> c = digit_char (n mod 10)"
      by (auto simp: decimal.simps[of n])
    with False "1.IH" show ?thesis by (auto intro: exI[of _ "n mod 10"])
  qed
qed

lemma decimal_value: "digits_value 10 acc (decimal n) = Some (acc * 10 ^ length (decimal n) + n)"
proof (induction n arbitrary: acc rule: decimal.induct)
  case (1 n)
  show ?case
  proof (cases "n < 10")
    case True
    then show ?thesis by (simp add: decimal.simps[of n] digit_of_digit_char)
  next
    case False
    have all: "\<forall>c \<in> set (decimal (n div 10)). digit_of 10 c \<noteq> None"
      using decimal_digits digit_of_digit_char by fastforce
    have "digits_value 10 acc (decimal n) =
        digits_value 10 (acc * 10 ^ length (decimal (n div 10)) + n div 10) [digit_char (n mod 10)]"
      using False by (simp add: decimal.simps[of n] digits_value_append[OF all] "1.IH")
    also have "\<dots> = Some ((acc * 10 ^ length (decimal (n div 10)) + n div 10) * 10 + n mod 10)"
      by (simp add: digit_of_digit_char)
    also have "\<dots> = Some (acc * 10 ^ length (decimal n) + n)"
      using False by (simp add: decimal.simps[of n] algebra_simps)
    finally show ?thesis .
  qed
qed

lemma decimal_shape: "\<exists>d cs. d < 10 \<and> decimal n = digit_char d # cs \<and> (\<forall>c \<in> set cs. \<exists>e < 10. c = digit_char e)"
proof -
  have ne: "decimal n \<noteq> []"
    by (subst decimal.simps) auto
  then obtain c cs where d: "decimal n = c # cs" by (cases "decimal n") auto
  then have "c \<in> set (decimal n)" by simp
  then obtain d0 where "d0 < 10" "c = digit_char d0" using decimal_digits by blast
  moreover have "\<forall>c \<in> set cs. \<exists>e < 10. c = digit_char e"
    using d decimal_digits[of _ n] by auto
  ultimately show ?thesis using d by blast
qed

lemma parseInt_decimal: "parseInt_str (decimal n) = Finite (of_nat n)"
proof -
  obtain d cs where s: "d < 10" "decimal n = digit_char d # cs"
    "\<forall>c \<in> set cs. \<exists>e < 10. c = digit_char e"
    using decimal_shape by blast
  have nows: "dropWhile is_ws (decimal n) = decimal n"
    using s(1,2) digit_char_plain[of d] by simp
  have nohex: "take 2 (decimal n) \<noteq> ''0x'' \<and> take 2 (decimal n) \<noteq> ''0X''"
  proof (cases cs)
    case Nil
    with s(2) show ?thesis by simp
  next
    case (Cons c' cs')
    with s(3) obtain e where "e < 10" "c' = digit_char e" by auto
    with Cons s(2) digit_char_plain[of e] show ?thesis by auto
  qed
  have dv: "digits_value 10 0 (decimal n) = Some n"
    using decimal_value[of 0 n] by simp
  have "parseInt_digits 10 (decimal n) = Some (int n)"
    using s(1,2) dv by (simp add: parseInt_digits_def digit_of_digit_char)
  then have "parseInt_unsigned (decimal n) = Some (int n)"
    using nohex by (simp add: parseInt_unsigned_def)
  then show ?thesis
    using s(1,2) digit_char_plain[of d]
    by (simp add: parseInt_str_def nows Let_def)
qed












subsection \<open>Saving a result\<close>

text \<open>
  C1.  The claim is that a request with the four fields whose insert succeeds is answered
  200 with the inserted record, fresh statistics and chart data, after a broadcast.  The
  handler calls \<open>insertSentimentAnalysis\<close> without awaiting it, so what it tests is the
  \<open>success\<close> property of a promise, which is undefined: whatever the request and whatever
  the store does, the answer is never 200 and nothing is broadcast.  The statement below
  is what the code does; the witness runs the request of the specification's scenario, for
  which the insert succeeds and the row is written, and the answer is 500 with no
  message.
\<close>

theorem save_sentiment_never_answers_200:
  "(\<exists>r w'. post_save_sentiment b w = (Inr r, w') \<and> status r \<noteq> 200 \<and> emitted w' = emitted w)
 \<and> (\<exists>r w'. post_save_sentiment_server_js b w = (Inr r, w') \<and> status r \<noteq> 200)"
  using save_sentiment_not_200[of b w] save_sentiment_server_js_not_200[of b w] by blast

theorem save_sentiment_never_answers_200_witness:
  "fst (insertSentimentAnalysis
          (analysis_data (JStr ''great product'') (JStr ''positive'') (JNum (Finite (95 / 100)))
             sample_probabilities)
          (connected_to (empty_db all_not_null))) =
     Inr (JObj [(''success'', JBool True), (''id'', JNum (Finite 1)),
                (''data'', JObj
                   [(''id'', JNum (Finite 1)),
                    (''text'', JStr ''great product''),
                    (''predicted_class'', JStr ''positive''),
                    (''confidence'', JNum (Finite (95 / 100))),
                    (''positive_prob'', JNum (Finite (95 / 100))),
                    (''negative_prob'', JNum (Finite (3 / 100))),
                    (''neutral_prob'', JNum (Finite (2 / 100))),
                    (''source'', JStr ''web_analyzer''),
                    (''created_at'', JDate 0),
                    (''updated_at'', JDate 0),
                    (''all_probabilities'', sample_probabilities)])])
 \<and> fst (post_save_sentiment sample_body (connected_to (empty_db all_not_null))) =
     Inr \<lparr>status = 500, body = JObj [(''success'', JBool False), (''error'', JUndefined)]\<rparr>
 \<and> emitted (snd (post_save_sentiment sample_body (connected_to (empty_db all_not_null)))) = []
 \<and> map_option (\<lambda>db. map row_text (tbl db))
      (pool (snd (post_save_sentiment sample_body (connected_to (empty_db all_not_null))))) =
     Some [JStr ''great product'']
 \<and> fst (post_save_sentiment_server_js sample_body (connected_to (empty_db all_not_null))) =
     Inr \<lparr>status = 500, body = JObj [(''success'', JBool False), (''error'', JUndefined)]\<rparr>"
  using save_sentiment_never_answers_200[of sample_body "connected_to (empty_db all_not_null)"]
  by (simp add: eval_defs sample_defs io_defs)

text \<open>
  C3.  A request body whose \<open>confidence\<close> is 0, or whose \<open>text\<close> is the empty string, or
  in which any of the four fields is another falsy value, is answered 400 with the
  missing-fields error, by both servers, and the state is left as it was: no statement is
  sent to the store.
\<close>

theorem falsy_field_is_rejected:
  assumes "b \<noteq> JUndefined" "b \<noteq> JNull"
    and "f \<in> {''text'', ''predicted_class'', ''confidence'', ''all_probabilities''}"
    and "opt_chain b f \<in> {JNum (Finite 0), JStr [], JNull, JUndefined, JBool False, JNum NaN}"
  shows "post_save_sentiment b w =
           (Inr \<lparr>status = 400, body = JObj [(''success'', JBool False),
              (''error'', JStr ''Missing required fields: text, predicted_class, confidence, all_probabilities'')]\<rparr>, w)
       \<and> post_save_sentiment_server_js b w =
           (Inr \<lparr>status = 400, body = JObj [(''success'', JBool False),
              (''error'', JStr ''Missing required fields: text, predicted_class, confidence, all_probabilities'')]\<rparr>, w)"
proof -
  have gp: "\<And>k. get_prop b k = Inr (opt_chain b k)"
    using assms(1,2) by (simp add: get_prop_total)
  have "\<not> truthy (opt_chain b f)" using assms(4) by auto
  then have "\<not> truthy (opt_chain b ''text'') \<or> \<not> truthy (opt_chain b ''predicted_class'')
      \<or> \<not> truthy (opt_chain b ''confidence'') \<or> \<not> truthy (opt_chain b ''all_probabilities'')"
    using assms(3) by auto
  then show ?thesis
    by (auto simp add: post_save_sentiment_def post_save_sentiment_server_js_def io_defs gp
        missing_fields_def error_body_def)
qed

theorem falsy_field_is_rejected_witness:
  "opt_chain zero_confidence_body ''confidence'' = JNum (Finite 0)
 \<and> truthy (opt_chain zero_confidence_body ''text'')
 \<and> truthy (opt_chain zero_confidence_body ''predicted_class'')
 \<and> truthy (opt_chain zero_confidence_body ''all_probabilities'')
 \<and> post_save_sentiment zero_confidence_body (connected_to (empty_db no_constraints)) =
      (Inr \<lparr>status = 400, body = JObj [(''success'', JBool False),
         (''error'', JStr ''Missing required fields: text, predicted_class, confidence, all_probabilities'')]\<rparr>,
       connected_to (empty_db no_constraints))
 \<and> opt_chain empty_text_body ''text'' = JStr []
 \<and> post_save_sentiment empty_text_body (connected_to (empty_db no_constraints)) =
      (Inr \<lparr>status = 400, body = JObj [(''success'', JBool False),
         (''error'', JStr ''Missing required fields: text, predicted_class, confidence, all_probabilities'')]\<rparr>,
       connected_to (empty_db no_constraints))"
  using falsy_field_is_rejected[of zero_confidence_body "''confidence''" "connected_to (empty_db no_constraints)"]
        falsy_field_is_rejected[of empty_text_body "''text''" "connected_to (empty_db no_constraints)"]
  by (simp add: zero_confidence_body_def empty_text_body_def sample_probabilities_def)




subsection \<open>The insert operation of the adapter\<close>

text \<open>
  C2.  The claim is that the adapter's insert validates the presence of \<open>text\<close>,
  \<open>predicted_class\<close>, \<open>confidence\<close> and the three probabilities before writing, and
  returns \<open>success: false\<close> with a message when one is missing.  The adapter has no such
  check (the HTTP handler has one): on a table that accepts NULL, a record without
  \<open>text\<close> is written and reported as a success; and on a table that does not, the
  statement is sent all the same, and the failure returned is the one the database
  reports.
\<close>

theorem insert_does_not_validate_counterexample:
  "opt_chain no_text_record ''text'' = JUndefined
 \<and> fst (insertSentimentAnalysis no_text_record (connected_to (empty_db no_constraints))) =
     Inr (JObj [(''success'', JBool True), (''id'', JNum (Finite 1)),
                (''data'', JObj
                   [(''id'', JNum (Finite 1)),
                    (''text'', JNull),
                    (''predicted_class'', JStr ''positive''),
                    (''confidence'', JNum (Finite (95 / 100))),
                    (''positive_prob'', JNum (Finite (95 / 100))),
                    (''negative_prob'', JNum (Finite (3 / 100))),
                    (''neutral_prob'', JNum (Finite (2 / 100))),
                    (''source'', JStr ''web_analyzer''),
                    (''created_at'', JDate 0),
                    (''updated_at'', JDate 0),
                    (''all_probabilities'', sample_probabilities)])])
 \<and> map_option (\<lambda>db. map row_text (tbl db))
      (pool (snd (insertSentimentAnalysis no_text_record (connected_to (empty_db no_constraints))))) =
     Some [JNull]
 \<and> faults strict_then_down = [None, Some ''connection lost'']
 \<and> fst (insertSentimentAnalysis no_text_record strict_then_down) =
     Inr (JObj [(''success'', JBool False),
                (''error'', JStr ''null value violates not-null constraint'')])
 \<and> faults (snd (insertSentimentAnalysis no_text_record strict_then_down)) =
     [Some ''connection lost'']"
  by (simp add: eval_defs sample_defs io_defs no_text_record_def strict_then_down_def)

text \<open>
  C2, as amended.  With a pool configured, the insert never throws.  When
  \<open>all_probabilities\<close> is missing, reading its members fails; the failure is caught and
  returned as \<open>success: false\<close> with the message, and no statement is sent.  Any other
  missing field is bound as NULL: when the database rejects the statement, the result is
  \<open>success: false\<close> with the message of the database and no row is written; when it
  accepts it, one row is written and the result is \<open>success: true\<close>.
\<close>

theorem insert_relies_on_the_table:
  assumes "pool w = Some db"
  shows "(\<exists>r w'. insertSentimentAnalysis a w = (Inr r, w'))
       \<and> (opt_chain a ''all_probabilities'' \<in> {JUndefined, JNull} \<longrightarrow>
            (\<exists>m. insertSentimentAnalysis a w =
               (Inr (JObj [(''success'', JBool False), (''error'', JStr m)]),
                w\<lparr>console_errors := console_errors w @ [''Error inserting data:'']\<rparr>)))
       \<and> (\<forall>vs m. insert_values a = Inr vs \<and> next_fault (faults w) = None
              \<and> tbl_check db (map prepareValue vs) = Some m \<longrightarrow>
            insertSentimentAnalysis a w =
               (Inr (JObj [(''success'', JBool False), (''error'', JStr m)]),
                w\<lparr>faults := tl (faults w),
                  console_errors := console_errors w @ [''Error inserting data:'']\<rparr>))
       \<and> (\<forall>vs. insert_values a = Inr vs \<and> next_fault (faults w) = None
              \<and> tbl_check db (map prepareValue vs) = None \<longrightarrow>
            (\<exists>i d db'. insertSentimentAnalysis a w =
               (Inr (JObj [(''success'', JBool True), (''id'', i), (''data'', d)]),
                w\<lparr>faults := tl (faults w), pool := Some db'\<rparr>)
               \<and> length (tbl db') = Suc (length (tbl db))))"
proof (intro conjI impI allI)
  show "\<exists>r w'. insertSentimentAnalysis a w = (Inr r, w')"
    using insert_outcome by blast
next
  assume "opt_chain a ''all_probabilities'' \<in> {JUndefined, JNull}"
  then obtain m where "insert_values a = Inl (TypeError m)"
    using insert_values_absent[of a] by auto
  from insert_not_sent[OF assms this]
  show "\<exists>m. insertSentimentAnalysis a w =
      (Inr (JObj [(''success'', JBool False), (''error'', JStr m)]),
       w\<lparr>console_errors := console_errors w @ [''Error inserting data:'']\<rparr>)"
    by auto
next
  fix vs m
  assume "insert_values a = Inr vs \<and> next_fault (faults w) = None
              \<and> tbl_check db (map prepareValue vs) = Some m"
  then show "insertSentimentAnalysis a w =
               (Inr (JObj [(''success'', JBool False), (''error'', JStr m)]),
                w\<lparr>faults := tl (faults w),
                  console_errors := console_errors w @ [''Error inserting data:'']\<rparr>)"
    using insert_rejected[OF assms] by blast
next
  fix vs
  assume h: "insert_values a = Inr vs \<and> next_fault (faults w) = None
              \<and> tbl_check db (map prepareValue vs) = None"
  then obtain t pc c pp np up s where vs: "vs = [t, pc, c, pp, np, up, s]"
    using insert_values_seven by blast
  from h vs insert_accepted[OF assms, of a t pc c pp np up s]
  show "\<exists>i d db'. insertSentimentAnalysis a w =
               (Inr (JObj [(''success'', JBool True), (''id'', i), (''data'', d)]),
                w\<lparr>faults := tl (faults w), pool := Some db'\<rparr>)
               \<and> length (tbl db') = Suc (length (tbl db))"
    by auto
qed

theorem insert_relies_on_the_table_witness:
  "pool (connected_to (empty_db all_not_null)) = Some (empty_db all_not_null)
 \<and> opt_chain no_probabilities_record ''all_probabilities'' = JUndefined
 \<and> fst (insertSentimentAnalysis no_probabilities_record (connected_to (empty_db all_not_null))) =
     Inr (JObj [(''success'', JBool False),
                (''error'', JStr ''Cannot read properties of undefined (reading 'positive')'')])
 \<and> pool (snd (insertSentimentAnalysis no_probabilities_record (connected_to (empty_db all_not_null)))) =
     Some (empty_db all_not_null)
 \<and> opt_chain no_text_record ''text'' = JUndefined
 \<and> insertSentimentAnalysis no_text_record (connected_to (empty_db all_not_null)) =
     (Inr (JObj [(''success'', JBool False),
                 (''error'', JStr ''null value violates not-null constraint'')]),
      (connected_to (empty_db all_not_null))\<lparr>console_errors := [''Error inserting data:'']\<rparr>)"
  using insert_relies_on_the_table[of "connected_to (empty_db all_not_null)" "empty_db all_not_null" no_text_record]
  by (simp add: eval_defs sample_defs io_defs no_text_record_def no_probabilities_record_def cannot_read_def)





subsection \<open>The degraded mode\<close>

text \<open>
  C4.  When no pool is configured every operation of the adapter returns normally and
  leaves the state as it was: the list, recent, statistics and chart operations return the
  empty list, the count-and-last-updated query returns zero entries and no date, and insert
  and delete-all return \<open>success: false\<close> with the message that PostgreSQL is not
  configured.
\<close>

theorem degraded_mode_operations:
  assumes "pool w = None"
  shows "insertSentimentAnalysis a w =
           (Inr (JObj [(''success'', JBool False), (''error'', JStr ''PostgreSQL not configured'')]), w)
       \<and> clearAllData w =
           (Inr (JObj [(''success'', JBool False), (''error'', JStr ''PostgreSQL not configured'')]), w)
       \<and> getAllSentimentData w = (Inr [], w)
       \<and> getRecentEntries n w = (Inr [], w)
       \<and> getSentimentStats w = (Inr [], w)
       \<and> getChartData w = (Inr [], w)
       \<and> getDatabaseStats w =
           (Inr (JObj [(''total_entries'', JNum (Finite 0)), (''last_updated'', JNull)]), w)
       \<and> getDatabaseInfo w =
           (Inr (JObj [(''total_entries'', JNum (Finite 0)), (''last_updated'', JNull),
                       (''database_type'', JStr ''PostgreSQL (Not Configured)''),
                       (''connection_status'', JStr ''disconnected'')]), w)
       \<and> testConnection w = (Inr False, w)
       \<and> initializeDatabase w =
           (Inr (JObj [(''total_entries'', JNum (Finite 0)), (''last_updated'', JNull),
                       (''status'', JStr ''fallback_mode'')]), w)"
  using assms
  by (simp add: insertSentimentAnalysis_def clearAllData_def getAllSentimentData_def
      getRecentEntries_def getSentimentStats_def getChartData_def getDatabaseStats_def
      getDatabaseInfo_def testConnection_def initializeDatabase_def not_configured_def
      no_stats_def database_info_def fallback_def io_defs)

theorem degraded_mode_operations_witness:
  "pool degraded = None
 \<and> insertSentimentAnalysis sample_body degraded =
      (Inr (JObj [(''success'', JBool False), (''error'', JStr ''PostgreSQL not configured'')]), degraded)
 \<and> clearAllData degraded =
      (Inr (JObj [(''success'', JBool False), (''error'', JStr ''PostgreSQL not configured'')]), degraded)
 \<and> getAllSentimentData degraded = (Inr [], degraded)
 \<and> getRecentEntries (Some 5) degraded = (Inr [], degraded)
 \<and> getSentimentStats degraded = (Inr [], degraded)
 \<and> getDatabaseStats degraded =
      (Inr (JObj [(''total_entries'', JNum (Finite 0)), (''last_updated'', JNull)]), degraded)"
  using degraded_mode_operations[of degraded sample_body "Some 5"]
  by (simp add: degraded_def)

subsection \<open>Deleting everything\<close>

text \<open>
  C7.  On a configured pool whose statements do not fail, \<open>clearAllData\<close> succeeds and
  leaves the table empty; called again it succeeds again and changes nothing; and after it
  the list, recent, statistics and chart operations return the empty list, and the count
  is zero with no last-updated date.
\<close>

theorem delete_all_is_idempotent:
  assumes "pool w = Some db" "faults w = []"
    and "w1 = w\<lparr>pool := Some (db\<lparr>tbl := []\<rparr>)\<rparr>"
  shows "clearAllData w =
           (Inr (JObj [(''success'', JBool True), (''message'', JStr ''All data cleared successfully'')]), w1)
       \<and> clearAllData w1 =
           (Inr (JObj [(''success'', JBool True), (''message'', JStr ''All data cleared successfully'')]), w1)
       \<and> getAllSentimentData w1 = (Inr [], w1)
       \<and> getRecentEntries n w1 = (Inr [], w1)
       \<and> getSentimentStats w1 = (Inr [], w1)
       \<and> getChartData w1 = (Inr [], w1)
       \<and> getDatabaseStats w1 =
           (Inr (JObj [(''total_entries'', JNum (Finite 0)), (''last_updated'', JNull)]), w1)
       \<and> getDatabaseInfo w1 =
           (Inr (JObj [(''total_entries'', JNum (Finite 0)), (''last_updated'', JNull),
                       (''database_type'', JStr ''PostgreSQL''),
                       (''connection_status'', JStr ''connected'')]), w1)"
proof -
  have f1: "faults w1 = []" and p1: "pool w1 = Some (db\<lparr>tbl := []\<rparr>)"
    using assms by simp_all
  have u: "w\<lparr>faults := []\<rparr> = w" "w1\<lparr>faults := []\<rparr> = w1"
    using assms(2) f1 by (simp_all add: no_fault_update)
  have q: "\<And>s. pool_query s w1 =
      (case exec s (db\<lparr>tbl := []\<rparr>) of Inl m \<Rightarrow> (Inl (Error m), w1)
       | Inr (rows, db') \<Rightarrow> (Inr rows, w1\<lparr>pool := Some db'\<rparr>))"
    by (simp add: pool_query_def next_fault_def Let_def f1 p1 u(2))
  have same: "w1\<lparr>pool := Some (db\<lparr>tbl := []\<rparr>)\<rparr> = w1"
    using assms(3) by simp
  have c0: "clearAllData w =
     (Inr (JObj [(''success'', JBool True), (''message'', JStr ''All data cleared successfully'')]), w1)"
    by (simp add: clearAllData_def pool_query_def next_fault_def io_defs Let_def assms u(1))
  have c1: "clearAllData w1 =
     (Inr (JObj [(''success'', JBool True), (''message'', JStr ''All data cleared successfully'')]), w1)"
    using p1 by (simp add: same clearAllData_def q io_defs)
  have a: "getAllSentimentData w1 = (Inr [], w1)"
    using p1 by (simp add: same getAllSentimentData_def q io_defs newest_first_def)
  have r: "getRecentEntries n w1 = (Inr [], w1)"
    using p1 by (simp add: same getRecentEntries_def q io_defs newest_first_def)
  have s: "getSentimentStats w1 = (Inr [], w1)"
    using p1 by (simp add: same getSentimentStats_def q io_defs stats_groups_def)
  have ch: "getChartData w1 = (Inr [], w1)"
    using s by (simp add: getChartData_def io_defs)
  have ds: "getDatabaseStats w1 =
           (Inr (JObj [(''total_entries'', JNum (Finite 0)), (''last_updated'', JNull)]), w1)"
    using p1 by (simp add: same getDatabaseStats_def q io_defs max_created_def trunc_def)
  have di: "getDatabaseInfo w1 =
           (Inr (JObj [(''total_entries'', JNum (Finite 0)), (''last_updated'', JNull),
                       (''database_type'', JStr ''PostgreSQL''),
                       (''connection_status'', JStr ''connected'')]), w1)"
    using p1 ds by (simp add: getDatabaseInfo_def io_defs database_info_def)
  from c0 c1 a r s ch ds di show ?thesis by blast
qed

theorem delete_all_is_idempotent_witness:
  "pool two_rows = Some two_rows_db \<and> faults two_rows = []
 \<and> length (tbl two_rows_db) = 2
 \<and> clearAllData two_rows =
      (Inr (JObj [(''success'', JBool True), (''message'', JStr ''All data cleared successfully'')]),
       two_rows\<lparr>pool := Some (two_rows_db\<lparr>tbl := []\<rparr>)\<rparr>)
 \<and> clearAllData (two_rows\<lparr>pool := Some (two_rows_db\<lparr>tbl := []\<rparr>)\<rparr>) =
      (Inr (JObj [(''success'', JBool True), (''message'', JStr ''All data cleared successfully'')]),
       two_rows\<lparr>pool := Some (two_rows_db\<lparr>tbl := []\<rparr>)\<rparr>)
 \<and> getAllSentimentData (two_rows\<lparr>pool := Some (two_rows_db\<lparr>tbl := []\<rparr>)\<rparr>) =
      (Inr [], two_rows\<lparr>pool := Some (two_rows_db\<lparr>tbl := []\<rparr>)\<rparr>)
 \<and> getDatabaseStats (two_rows\<lparr>pool := Some (two_rows_db\<lparr>tbl := []\<rparr>)\<rparr>) =
      (Inr (JObj [(''total_entries'', JNum (Finite 0)), (''last_updated'', JNull)]),
       two_rows\<lparr>pool := Some (two_rows_db\<lparr>tbl := []\<rparr>)\<rparr>)"
  using delete_all_is_idempotent[of two_rows two_rows_db "two_rows\<lparr>pool := Some (two_rows_db\<lparr>tbl := []\<rparr>)\<rparr>"]
  by (simp add: two_rows_def two_rows_db_def connected_to_def)


subsection \<open>Listing and statistics\<close>

text \<open>
  C8.  On a configured pool whose statement does not fail, \<open>GET /api/sentiment-data\<close>
  retrieves all records, newest first.  With a \<open>limit\<close> that \<open>parseInt\<close> reads as the
  number \<open>n\<close>, the data of the answer are the first \<open>n\<close> of them, none of which was
  created before any record left out, and the total still counts every record.  Without a
  \<open>limit\<close> the data are all records.  The decimal numeral of \<open>n\<close> is such a limit.
\<close>

theorem sentiment_data_limit:
  assumes "pool w = Some db" "next_fault (faults w) = None"
  shows "fst (getAllSentimentData w) = Inr (map stored_record (newest_first (tbl db)))
       \<and> mset (newest_first (tbl db)) = mset (tbl db)
       \<and> sorted_wrt (\<lambda>a b. created_at b \<le> created_at a) (newest_first (tbl db))
       \<and> (truthy limit \<and> parseInt limit = Finite (of_nat n) \<longrightarrow>
            fst (get_sentiment_data limit w) =
              Inr \<lparr>status = 200, body = JObj
                    [(''success'', JBool True),
                     (''data'', JArr (map stored_record (take n (newest_first (tbl db))))),
                     (''total'', JNum (Finite (of_nat (length (tbl db)))))]\<rparr>
            \<and> (\<forall>r \<in> set (take n (newest_first (tbl db))).
                 \<forall>r' \<in> set (drop n (newest_first (tbl db))). created_at r' \<le> created_at r))
       \<and> (\<not> truthy limit \<longrightarrow>
            fst (get_sentiment_data limit w) =
              Inr \<lparr>status = 200, body = JObj
                    [(''success'', JBool True),
                     (''data'', JArr (map stored_record (newest_first (tbl db)))),
                     (''total'', JNum (Finite (of_nat (length (tbl db)))))]\<rparr>)
       \<and> truthy (JStr (decimal n)) \<and> parseInt (JStr (decimal n)) = Finite (of_nat n)"
proof -
  note all = getAllSentimentData_ok[OF assms]
  have len: "length (newest_first (tbl db)) = length (tbl db)"
    by (simp add: newest_first_def)
  have 1: "fst (getAllSentimentData w) = Inr (map stored_record (newest_first (tbl db)))"
    by (simp add: all)
  have 4: "truthy limit \<and> parseInt limit = Finite (of_nat n) \<longrightarrow>
            fst (get_sentiment_data limit w) =
              Inr \<lparr>status = 200, body = JObj
                    [(''success'', JBool True),
                     (''data'', JArr (map stored_record (take n (newest_first (tbl db))))),
                     (''total'', JNum (Finite (of_nat (length (tbl db)))))]\<rparr>
            \<and> (\<forall>r \<in> set (take n (newest_first (tbl db))).
                 \<forall>r' \<in> set (drop n (newest_first (tbl db))). created_at r' \<le> created_at r)"
    using sorted_wrt_take_drop[OF newest_first_sorted[of "tbl db"], of _ n]
    by (auto simp add: get_sentiment_data_def io_defs all len trunc_of_nat take_map)
  have 5: "\<not> truthy limit \<longrightarrow>
            fst (get_sentiment_data limit w) =
              Inr \<lparr>status = 200, body = JObj
                    [(''success'', JBool True),
                     (''data'', JArr (map stored_record (newest_first (tbl db)))),
                     (''total'', JNum (Finite (of_nat (length (tbl db)))))]\<rparr>"
    by (simp add: get_sentiment_data_def io_defs all len)
  have 6: "truthy (JStr (decimal n)) \<and> parseInt (JStr (decimal n)) = Finite (of_nat n)"
    using decimal_shape[of n] by (auto simp: parseInt_decimal)
  from 1 4 5 6 newest_first_mset newest_first_sorted show ?thesis by blast
qed

theorem sentiment_data_limit_witness:
  "pool five_rows = Some five_rows_db \<and> next_fault (faults five_rows) = None
 \<and> map created_at (tbl five_rows_db) = [10, 50, 30, 20, 40]
 \<and> truthy (JStr ''2'') \<and> parseInt (JStr ''2'') = Finite 2
 \<and> fst (get_sentiment_data (JStr ''2'') five_rows) =
      Inr \<lparr>status = 200, body = JObj
            [(''success'', JBool True),
             (''data'', JArr [stored_record (sample_row 2 ''negative'' (7 / 10) 50),
                              stored_record (sample_row 5 ''positive'' (1 / 3) 40)]),
             (''total'', JNum (Finite 5))]\<rparr>
 \<and> fst (get_sentiment_data JUndefined five_rows) =
      Inr \<lparr>status = 200, body = JObj
            [(''success'', JBool True),
             (''data'', JArr [stored_record (sample_row 2 ''negative'' (7 / 10) 50),
                              stored_record (sample_row 5 ''positive'' (1 / 3) 40),
                              stored_record (sample_row 3 ''positive'' (8 / 10) 30),
                              stored_record (sample_row 4 ''neutral'' (6 / 10) 20),
                              stored_record (sample_row 1 ''positive'' (9 / 10) 10)]),
             (''total'', JNum (Finite 5))]\<rparr>"
  using sentiment_data_limit[of five_rows five_rows_db "JStr ''2''" 2]
        sentiment_data_limit[of five_rows five_rows_db JUndefined 0]
  by (simp add: five_rows_def five_rows_db_def connected_to_def next_fault_def parseInt_two
      newest_first_def sample_row_def)





subsection \<open>The broadcast\<close>

text \<open>
  C9.  The broadcast routine always returns normally.  When the emission fails, nothing is
  emitted and the failure is logged by \<open>console.error\<close>; otherwise one
  \<open>data-updated\<close> event is emitted.  The failures of the adapter's operations are
  caught inside them.  The answer to \<open>DELETE /api/clear-data\<close>, which triggers the
  broadcast, is decided by the outcome of \<open>clearAllData\<close> alone: 200 when it reports a
  success, 500 otherwise.
\<close>

theorem broadcast_failure_is_swallowed:
  "(\<exists>w'. broadcastDataUpdate w = (Inr (), w')
      \<and> ((\<exists>p. next_fault (emit_faults w) = None \<and> emitted w' = emitted w @ [(''data-updated'', p)])
         \<or> (next_fault (emit_faults w) \<noteq> None \<and> emitted w' = emitted w
             \<and> last (console_errors w') = ''Error broadcasting update:'')))
 \<and> (\<exists>r w1. clearAllData w = (Inr r, w1)
      \<and> fst (delete_clear_data w) =
          Inr (if truthy (opt_chain r ''success'')
               then \<lparr>status = 200, body = JObj [(''success'', JBool True),
                      (''message'', JStr ''All sentiment data cleared successfully'')]\<rparr>
               else \<lparr>status = 500, body = JObj [(''success'', JBool False),
                      (''error'', js_or (opt_chain r ''error'') (JStr ''Failed to clear data''))]\<rparr>))"
proof -
  obtain kvs w1 where c: "clearAllData w = (Inr (JObj kvs), w1)"
    using clearAllData_returns by blast
  obtain w2 where b: "broadcastDataUpdate w1 = (Inr (), w2)"
    using broadcast_outcome[of w1] by blast
  have "fst (delete_clear_data w) =
          Inr (if truthy (opt_chain (JObj kvs) ''success'')
               then \<lparr>status = 200, body = JObj [(''success'', JBool True),
                      (''message'', JStr ''All sentiment data cleared successfully'')]\<rparr>
               else \<lparr>status = 500, body = JObj [(''success'', JBool False),
                      (''error'', js_or (opt_chain (JObj kvs) ''error'') (JStr ''Failed to clear data''))]\<rparr>)"
    using c b by (simp add: delete_clear_data_def io_defs error_body_def)
  with c broadcast_outcome[of w] show ?thesis by blast
qed

theorem broadcast_failure_is_swallowed_witness:
  "next_fault (emit_faults broken_socket) = Some ''transport closed''
 \<and> fst (broadcastDataUpdate broken_socket) = Inr ()
 \<and> emitted (snd (broadcastDataUpdate broken_socket)) = []
 \<and> console_errors (snd (broadcastDataUpdate broken_socket)) = [''Error broadcasting update:'']
 \<and> fst (clearAllData broken_socket) =
     Inr (JObj [(''success'', JBool True), (''message'', JStr ''All data cleared successfully'')])
 \<and> fst (delete_clear_data broken_socket) =
     Inr \<lparr>status = 200, body = JObj [(''success'', JBool True),
            (''message'', JStr ''All sentiment data cleared successfully'')]\<rparr>
 \<and> fst (delete_clear_data flaky_store) =
     Inr \<lparr>status = 200, body = JObj [(''success'', JBool True),
            (''message'', JStr ''All sentiment data cleared successfully'')]\<rparr>
 \<and> emitted (snd (delete_clear_data flaky_store)) =
     [(''data-updated'', JObj
        [(''statistics'', JArr []), (''chart_data'', JArr []), (''recent_entries'', JArr []),
         (''database_info'', JObj
            [(''total_entries'', JNum (Finite 0)), (''last_updated'', JNull),
             (''database_type'', JStr ''PostgreSQL'')])])]
 \<and> console_errors (snd (delete_clear_data flaky_store)) =
     [''Error getting stats:'', ''Error getting stats:'', ''Error getting recent entries:'',
      ''Error getting database stats:'']"
  using broadcast_failure_is_swallowed[of broken_socket]
  by (simp add: broken_socket_def flaky_store_def two_rows_def two_rows_db_def sample_defs
      io_defs io_emit_def broadcastDataUpdate_def
      delete_clear_data_def clearAllData_def getSentimentStats_def getChartData_def
      getRecentEntries_def getDatabaseInfo_def getDatabaseStats_def pool_query_def
      next_fault_def Let_def newest_first_def stats_groups_def max_created_def no_stats_def
      trunc_def database_info_def update_data_def js_or_def)


end
